theory Spec2Isabelle
  imports Complex_Main "HOL-Library.Word"
begin

section \<open>JavaScript values\<close>

text \<open>
  A JavaScript string is a sequence of UTF-16 code units. String literals of the source
  are ASCII and are written \<open>js ''...''\<close>.
\<close>

type_synonym jsstring = "16 word list"

definition js :: "string \<Rightarrow> jsstring" where
  "js s = map (\<lambda>c. of_nat (of_char c)) s"

text \<open>
  Numbers are only compared and tested for truthiness, never computed with, so a finite
  number is represented by the real it denotes (\<open>+0\<close> and \<open>-0\<close> coincide, as they do
  under \<open>===\<close>, \<open>==\<close> and \<open>!\<close>).
\<close>

datatype jsnum = NaN | PosInf | NegInf | Fin real

datatype jsval =
    Undefined
  | Null
  | Boolean bool
  | Number jsnum
  | Str jsstring
  | Obj "(jsstring \<times> jsval) list"
  | Arr "jsval list"

datatype js_error = TypeError

text \<open>ToBoolean: what \<open>!x\<close>, \<open>x ? a : b\<close>, \<open>x || y\<close> and \<open>if (x)\<close> test.\<close>

fun truthy :: "jsval \<Rightarrow> bool" where
  "truthy Undefined = False"
| "truthy Null = False"
| "truthy (Boolean b) = b"
| "truthy (Number n) = (n \<noteq> NaN \<and> n \<noteq> Fin 0)"
| "truthy (Str s) = (s \<noteq> [])"
| "truthy (Obj ps) = True"
| "truthy (Arr xs) = True"

definition num_eq :: "jsnum \<Rightarrow> jsnum \<Rightarrow> bool" where
  "num_eq a b = (a \<noteq> NaN \<and> a = b)"

text \<open>
  \<open>x === p\<close> for a primitive right operand \<open>p\<close>, which is all the source uses (a
  number from \<open>parseInt\<close>, \<open>null\<close>, a string literal): the operands have the same type
  and the same value, and \<open>NaN\<close> equals nothing. An object is never strictly equal to a
  primitive.
\<close>

fun strict_eq :: "jsval \<Rightarrow> jsval \<Rightarrow> bool" where
  "strict_eq Undefined Undefined = True"
| "strict_eq Null Null = True"
| "strict_eq (Boolean a) (Boolean b) = (a = b)"
| "strict_eq (Number a) (Number b) = num_eq a b"
| "strict_eq (Str a) (Str b) = (a = b)"
| "strict_eq x p = False"

text \<open>
  Property read \<open>x.k\<close>, for the keys the source reads from values it is given (\<open>id\<close>,
  \<open>error\<close>, \<open>responseText\<close>, \<open>studioGroupConfigurationsUrl\<close>): a TypeError on
  \<open>null\<close> and \<open>undefined\<close>, the own property of an object, and \<open>undefined\<close> where
  there is none (no built-in prototype defines these keys).
\<close>

fun get_prop :: "jsval \<Rightarrow> jsstring \<Rightarrow> js_error + jsval" where
  "get_prop Undefined k = Inl TypeError"
| "get_prop Null k = Inl TypeError"
| "get_prop (Obj ps) k = Inr (case map_of ps k of Some x \<Rightarrow> x | None \<Rightarrow> Undefined)"
| "get_prop x k = Inr Undefined"

text \<open>
  \<open>s.split(sep)\<close> for a one-character separator: the pieces between the separators,
  never an empty array.
\<close>

fun split :: "16 word \<Rightarrow> jsstring \<Rightarrow> jsstring list" where
  "split sep [] = [[]]"
| "split sep (c # cs) =
     (if c = sep then [] # split sep cs
      else (case split sep cs of
              [] \<Rightarrow> [[c]]
            | w # ws \<Rightarrow> (c # w) # ws))"

text \<open>Array read \<open>xs[i]\<close>: \<open>undefined\<close> out of range.\<close>

definition index :: "jsstring list \<Rightarrow> nat \<Rightarrow> jsval" where
  "index xs i = (if i < length xs then Str (xs ! i) else Undefined)"

text \<open>
  \<open>s.trim()\<close> removes the leading and the trailing run of white space; which code units
  count as white space (and line terminators) is the host's.
\<close>

definition trim :: "(16 word \<Rightarrow> bool) \<Rightarrow> jsstring \<Rightarrow> jsstring" where
  "trim ws s = rev (dropWhile ws (rev (dropWhile ws s)))"

section \<open>The host environment\<close>

text \<open>
  The functions the module receives or that the host provides, none of them defined in the
  sources: the translation function \<open>gettext\<close>, the white space of \<open>trim\<close>,
  \<open>parseInt\<close> (applied to a string or to \<open>undefined\<close>; it returns a number or \<open>NaN\<close>),
  \<open>JSON.parse\<close> (\<open>None\<close> when it throws a SyntaxError), the string-to-number conversion
  of \<open>==\<close>, and \<open>==\<close> where an operand is an object (reference identity or
  conversion to a primitive).
\<close>

record env =
  gettext :: "jsstring \<Rightarrow> jsstring"
  isWhiteSpace :: "16 word \<Rightarrow> bool"
  parseInt :: "jsval \<Rightarrow> jsnum"
  JSON_parse :: "jsval \<Rightarrow> jsval option"
  ToNumber :: "jsstring \<Rightarrow> jsnum"
  object_equals :: "jsval \<Rightarrow> jsval \<Rightarrow> bool"

definition nullish :: "jsval \<Rightarrow> bool" where
  "nullish x = (x = Undefined \<or> x = Null)"

fun is_object :: "jsval \<Rightarrow> bool" where
  "is_object (Obj ps) = True"
| "is_object (Arr xs) = True"
| "is_object x = False"

text \<open>The Abstract Equality Comparison \<open>x == y\<close> on numbers and strings.\<close>

fun prim_eq :: "env \<Rightarrow> jsval \<Rightarrow> jsval \<Rightarrow> bool" where
  "prim_eq e (Number a) (Number b) = num_eq a b"
| "prim_eq e (Str a) (Str b) = (a = b)"
| "prim_eq e (Number a) (Str b) = num_eq a (ToNumber e b)"
| "prim_eq e (Str a) (Number b) = num_eq (ToNumber e a) b"
| "prim_eq e x y = False"

fun bool_to_number :: "jsval \<Rightarrow> jsval" where
  "bool_to_number (Boolean b) = Number (Fin (if b then 1 else 0))"
| "bool_to_number x = x"

text \<open>
  \<open>x == y\<close>: \<open>null\<close> and \<open>undefined\<close> equal each other and nothing else, a boolean
  is compared as the number 1 or 0, a number and a string are compared as numbers.
\<close>

definition loose_eq :: "env \<Rightarrow> jsval \<Rightarrow> jsval \<Rightarrow> bool" where
  "loose_eq e x y =
     (if nullish x \<or> nullish y then nullish x \<and> nullish y
      else if is_object x \<or> is_object y then object_equals e x y
      else prim_eq e (bool_to_number x) (bool_to_number y))"

section \<open>The account settings model\<close>

text \<open>
  \<open>AccountSettingsModel = Backbone.Model.extend({idAttribute: ..., defaults: {...}})\<close>:
  the object literal of the defaults, as the list of its properties in source order.
\<close>

definition AccountSettingsModel_idAttribute :: jsstring where
  "AccountSettingsModel_idAttribute = js ''username''"

definition AccountSettingsModel_defaults :: "(jsstring \<times> jsval) list" where
  "AccountSettingsModel_defaults =
     [(js ''username'', Str (js '''')),
      (js ''name'', Str (js '''')),
      (js ''email'', Str (js '''')),
      (js ''password'', Str (js '''')),
      (js ''language'', Null),
      (js ''country'', Null),
      (js ''date_joined'', Str (js '''')),
      (js ''gender'', Null),
      (js ''goals'', Str (js '''')),
      (js ''level_of_education'', Null),
      (js ''mailing_address'', Str (js '''')),
      (js ''year_of_birth'', Null)]"

section \<open>The cohort form view\<close>

subsection \<open>State\<close>

text \<open>A cohort of the model's collection: the attributes the view reads with \<open>get\<close>.\<close>

record cohort =
  c_name :: jsval
  c_assignment_type :: jsval

text \<open>
  \<open>this.model\<close>: its \<open>id\<close> property, its \<open>name\<close> attribute and its \<open>collection\<close>
  (\<open>None\<close> when the property is undefined: the model is in no collection).
\<close>

record cohort_model =
  model_id :: jsval
  model_name :: jsval
  model_collection :: "cohort list option"

text \<open>
  A content group: its \<open>id\<close> property and the attributes \<open>get('id')\<close> and
  \<open>get('user_partition_id')\<close>.
\<close>

record content_group =
  cg_id :: jsval
  cg_get_id :: jsval
  cg_get_user_partition_id :: jsval

text \<open>
  What the view reads from the form inside its element: \<open>prop('checked')\<close> of
  \<open>.radio-yes\<close>, \<open>val()\<close> of \<open>.input-cohort-group-association\<close>, of \<open>.cohort-name\<close>
  and of the checked \<open>cohort-assignment-type\<close> input (each \<open>undefined\<close> when no element
  matches), and how many elements \<open>.form-fields\<close> selects.
\<close>

record form =
  radio_yes_checked :: jsval
  group_association_val :: jsval
  cohort_name_val :: jsval
  assignment_type_val :: jsval
  form_fields :: nat

record template_args =
  ta_cohort :: cohort_model
  ta_isDefaultCohort :: bool
  ta_contentGroups :: "content_group list"
  ta_studioGroupConfigurationsUrl :: jsval

record notification_options =
  n_type :: jsval
  n_title :: jsval
  n_details :: jsval

text \<open>A NotificationView object: its identity, its model and whether \<open>render\<close> ran.\<close>

record notification_view =
  nv_id :: nat
  nv_model :: notification_options
  nv_rendered :: bool

record field_data =
  fd_name :: jsval
  fd_group_id :: jsval
  fd_user_partition_id :: jsval
  fd_assignment_type :: jsval

text \<open>A call \<open>cohort.save(attrs, {patch: ..., wait: true})\<close>.\<close>

record save_request =
  rq_attrs :: field_data
  rq_patch :: bool
  rq_wait :: bool

text \<open>
  A notification element in the document: the element of a notification view (by the
  identity of the view), or a copy of it that jQuery made when inserting it.
\<close>

datatype notification_element = Element nat | Clone nat

text \<open>
  The view with the parts of the world it acts on: \<open>el_form\<close>, \<open>el_html\<close> and
  \<open>el_notifications\<close> are the content of its element (the form's inputs, the arguments
  the template was last rendered with, and the notification elements attached inside it),
  \<open>allocated\<close> counts the notification views created so far, and \<open>save_requests\<close>
  lists the calls of \<open>save\<close> on the model. \<open>context'\<close> is \<open>this.context\<close>, whatever
  the options held.
\<close>

record view =
  model :: cohort_model
  template :: "template_args \<Rightarrow> form"
  contentGroups :: "content_group list"
  context' :: jsval
  notification :: "notification_view option"
  el_form :: form
  el_html :: "template_args option"
  el_notifications :: "notification_element list"
  allocated :: nat
  save_requests :: "save_request list"


text \<open>
  \<open>$.Deferred()\<close>: the calls of \<open>resolve\<close> and \<open>reject\<close> made on it so far. The first
  call settles the promise; jQuery ignores later ones.
\<close>

datatype settlement = Resolved | Rejected

type_synonym deferred = "settlement list"

datatype promise_state = Pending | Settled settlement

definition resolve :: "deferred \<Rightarrow> deferred" where
  "resolve d = d @ [Resolved]"

definition reject :: "deferred \<Rightarrow> deferred" where
  "reject d = d @ [Rejected]"

definition promise :: "deferred \<Rightarrow> promise_state" where
  "promise d = (case d of [] \<Rightarrow> Pending | s # rest \<Rightarrow> Settled s)"

subsection \<open>Methods\<close>


text \<open>
  \<open>this.notification.remove()\<close> takes the notification's own element out of the
  document; copies of it stay.
\<close>

definition removeNotification :: "view \<Rightarrow> view" where
  "removeNotification v =
     (case notification v of
        None \<Rightarrow> v
      | Some n \<Rightarrow> v\<lparr>el_notifications := removeAll (Element (nv_id n)) (el_notifications v)\<rparr>)"

text \<open>
  jQuery's \<open>targets.before(element)\<close>, for a selection of \<open>targets\<close> elements: nothing
  is inserted for an empty selection; otherwise the element itself goes in front of the
  last target and a copy of it in front of each of the others.
\<close>

definition before :: "nat \<Rightarrow> nat \<Rightarrow> notification_element list" where
  "before targets i =
     (if targets = 0 then [] else replicate (targets - 1) (Clone i) @ [Element i])"

text \<open>
  \<open>beforeElement\<close> is a jQuery selection (the view passes \<open>this.$('.form-fields')\<close>),
  given by the number of its elements. The constructor of NotificationModel comes first
  in the source and touches nothing of the view.
\<close>

definition showNotification :: "notification_options \<Rightarrow> nat \<Rightarrow> view \<Rightarrow> view" where
  "showNotification options beforeElement v =
     (let v1 = removeNotification v;
          n = \<lparr>nv_id = allocated v1, nv_model = options, nv_rendered = False\<rparr>;
          v2 = v1\<lparr>notification := Some n, allocated := Suc (allocated v1)\<rparr>;
          v3 = v2\<lparr>el_notifications := before beforeElement (nv_id n) @ el_notifications v2\<rparr>
      in v3\<lparr>notification := Some (n\<lparr>nv_rendered := True\<rparr>)\<rparr>)"

definition isDefault :: "env \<Rightarrow> view \<Rightarrow> jsval \<Rightarrow> bool" where
  "isDefault e v name =
     (case model_collection (model v) of
        None \<Rightarrow> False
      | Some cohorts \<Rightarrow>
          (let randomModels =
                 filter (\<lambda>c. strict_eq (c_assignment_type c) (Str (js ''random''))) cohorts
           in length randomModels = 1 \<and> loose_eq e (c_name (hd randomModels)) name))"

text \<open>
  \<open>this.$el.html(...)\<close> replaces the whole content of the view's element.
  \<open>this.context.studioGroupConfigurationsUrl\<close> is a TypeError when the view was given no
  context; it is read before anything is changed.
\<close>

definition render :: "env \<Rightarrow> view \<Rightarrow> js_error + view" where
  "render e v =
     (case get_prop (context' v) (js ''studioGroupConfigurationsUrl'') of
        Inl err \<Rightarrow> Inl err
      | Inr url \<Rightarrow>
          (let args = \<lparr>ta_cohort = model v,
                       ta_isDefaultCohort = isDefault e v (model_name (model v)),
                       ta_contentGroups = contentGroups v,
                       ta_studioGroupConfigurationsUrl = url\<rparr>
           in Inr (v\<lparr>el_form := template v args, el_html := Some args,
                     el_notifications := []\<rparr>)))"

definition hasAssociatedContentGroup :: "view \<Rightarrow> jsval" where
  "hasAssociatedContentGroup v = radio_yes_checked (el_form v)"

text \<open>The loop of \<open>getSelectedContentGroup\<close> over \<open>this.contentGroups\<close>.\<close>

fun find_content_group :: "jsval \<Rightarrow> jsval \<Rightarrow> content_group list \<Rightarrow> content_group option" where
  "find_content_group groupId userPartitionId [] = None"
| "find_content_group groupId userPartitionId (contentGroup # rest) =
     (if strict_eq (cg_get_id contentGroup) groupId
         \<and> strict_eq (cg_get_user_partition_id contentGroup) userPartitionId
      then Some contentGroup
      else find_content_group groupId userPartitionId rest)"

text \<open>
  \<open>None\<close> is the result \<open>null\<close>. \<open>selectValue.split\<close> is a TypeError unless the value
  is a string.
\<close>

definition getSelectedContentGroup :: "env \<Rightarrow> view \<Rightarrow> js_error + content_group option" where
  "getSelectedContentGroup e v =
     (let selectValue = group_association_val (el_form v)
      in if \<not> truthy (hasAssociatedContentGroup v) \<or> strict_eq selectValue (Str (js ''None''))
         then Inr None
         else (case selectValue of
                 Str s \<Rightarrow>
                   (let ids = split 58 s;
                        groupId = Number (parseInt e (index ids 0));
                        userPartitionId = Number (parseInt e (index ids 1))
                    in Inr (find_content_group groupId userPartitionId (contentGroups v)))
               | other \<Rightarrow> Inl TypeError))"

text \<open>\<open>cohortName.trim\<close> is a TypeError when the value is truthy and not a string.\<close>

definition getUpdatedCohortName :: "env \<Rightarrow> view \<Rightarrow> js_error + jsval" where
  "getUpdatedCohortName e v =
     (let cohortName = cohort_name_val (el_form v)
      in if truthy cohortName
         then (case cohortName of
                 Str s \<Rightarrow> Inr (Str (trim (isWhiteSpace e) s))
               | other \<Rightarrow> Inl TypeError)
         else Inr (model_name (model v)))"

definition getAssignmentType :: "view \<Rightarrow> jsval" where
  "getAssignmentType v = assignment_type_val (el_form v)"

definition isCohortExists :: "env \<Rightarrow> view \<Rightarrow> jsval \<Rightarrow> bool" where
  "isCohortExists e v name = loose_eq e (model_name (model v)) name"

definition showMessage :: "jsval \<Rightarrow> jsval \<Rightarrow> jsval \<Rightarrow> view \<Rightarrow> view" where
  "showMessage message type details v =
     showNotification
       \<lparr>n_type = (if truthy type then type else Str (js ''confirmation'')),
        n_title = message,
        n_details = details\<rparr>
       (form_fields (el_form v)) v"

definition validate :: "env \<Rightarrow> view \<Rightarrow> field_data \<Rightarrow> jsstring list" where
  "validate e v fieldData =
     (let errorMessages = [];
          errorMessages =
            (if \<not> truthy (fd_name fieldData)
             then errorMessages @ [gettext e (js ''You must specify a name for the cohort'')]
             else errorMessages);
          errorMessages =
            (if truthy (hasAssociatedContentGroup v) \<and> strict_eq (fd_group_id fieldData) Null
             then (if strict_eq (group_association_val (el_form v)) (Str (js ''None''))
                   then errorMessages @ [gettext e (js ''You did not select a content group'')]
                   else errorMessages @ [gettext e (js ''The selected content group does not exist'')])
             else errorMessages)
      in errorMessages)"

text \<open>Lines 134 to 141 of \<open>saveForm\<close>: the field data read from the form.\<close>

definition saveForm_fieldData :: "env \<Rightarrow> view \<Rightarrow> js_error + field_data" where
  "saveForm_fieldData e v =
     (case getSelectedContentGroup e v of
        Inl err \<Rightarrow> Inl err
      | Inr selectedContentGroup \<Rightarrow>
          (let selectedAssignmentType = getAssignmentType v
           in case getUpdatedCohortName e v of
                Inl err \<Rightarrow> Inl err
              | Inr cohortName \<Rightarrow>
                  Inr \<lparr>fd_name = cohortName,
                       fd_group_id =
                         (case selectedContentGroup of
                            Some g \<Rightarrow> cg_id g
                          | None \<Rightarrow> Null),
                       fd_user_partition_id =
                         (case selectedContentGroup of
                            Some g \<Rightarrow> cg_get_user_partition_id g
                          | None \<Rightarrow> Null),
                       fd_assignment_type = selectedAssignmentType\<rparr>))"

definition showErrorMessage :: "jsval \<Rightarrow> jsval \<Rightarrow> view \<Rightarrow> view" where
  "showErrorMessage message details v = showMessage message (Str (js ''error'')) details v"

text \<open>
  \<open>saveForm\<close> returns the view after the call and the deferred whose promise it returns.
  When it calls \<open>cohort.save\<close>, the request is appended to \<open>save_requests\<close> and the
  callbacks \<open>saveForm_done\<close> and \<open>saveForm_fail\<close> wait for its outcome.
\<close>

definition saveForm :: "env \<Rightarrow> view \<Rightarrow> js_error + view \<times> deferred" where
  "saveForm e v =
     (let saveOperation = [];
          isUpdate = (model_id (model v) \<noteq> Undefined);
          v1 = removeNotification v
      in case saveForm_fieldData e v1 of
           Inl err \<Rightarrow> Inl err
         | Inr fieldData \<Rightarrow>
             (let errorMessages = validate e v1 fieldData
              in if length errorMessages > 0
                 then Inr (showErrorMessage
                             (Str (if isUpdate
                                   then gettext e (js ''The cohort cannot be saved'')
                                   else gettext e (js ''The cohort cannot be added'')))
                             (Arr (map Str errorMessages)) v1,
                           reject saveOperation)
                 else Inr (v1\<lparr>save_requests := save_requests v1 @
                                 [\<lparr>rq_attrs = fieldData, rq_patch = isUpdate, rq_wait = True\<rparr>]\<rparr>,
                           saveOperation)))"

text \<open>
  The callback of \<open>done\<close>, run with the view as it is when the response arrives;
  \<open>cohort\<close> is still the view's model. \<open>result.id\<close> is a TypeError when the response
  data is \<open>null\<close> or \<open>undefined\<close>. When the callback throws, \<open>Inl\<close> holds the error
  with the view and the deferred as they are at the throw.
\<close>

definition saveForm_done ::
  "env \<Rightarrow> jsval \<Rightarrow> view \<times> deferred \<Rightarrow> js_error \<times> (view \<times> deferred) + view \<times> deferred" where
  "saveForm_done e result st =
     (case st of (v, saveOperation) \<Rightarrow>
        (case get_prop result (js ''id'') of
           Inl err \<Rightarrow> Inl (err, (v, saveOperation))
         | Inr new_id \<Rightarrow>
             (let v1 = v\<lparr>model := (model v)\<lparr>model_id := new_id\<rparr>\<rparr>
              in case render e v1 of
                   Inl err \<Rightarrow> Inl (err, (v1, saveOperation))
                 | Inr v2 \<Rightarrow> Inr (v2, resolve saveOperation))))"

text \<open>The \<open>try\<close> block of the callback of \<open>fail\<close>: any exception leaves \<open>null\<close>.\<close>

definition response_error :: "env \<Rightarrow> jsval \<Rightarrow> jsval" where
  "response_error e result =
     (case get_prop result (js ''responseText'') of
        Inl err \<Rightarrow> Null
      | Inr responseText \<Rightarrow>
          (case JSON_parse e responseText of
             None \<Rightarrow> Null
           | Some jsonResponse \<Rightarrow>
               (case get_prop jsonResponse (js ''error'') of
                  Inl err \<Rightarrow> Null
                | Inr errorMessage \<Rightarrow> errorMessage)))"

definition saveForm_fail :: "env \<Rightarrow> jsval \<Rightarrow> view \<times> deferred \<Rightarrow> view \<times> deferred" where
  "saveForm_fail e result st =
     (case st of (v, saveOperation) \<Rightarrow>
        (let errorMessage = response_error e result;
             errorMessage =
               (if \<not> truthy errorMessage
                then Str (gettext e
                  (js ''We've encountered an error. Refresh your browser and then try again.''))
                else errorMessage)
         in (showErrorMessage errorMessage Undefined v, reject saveOperation)))"

subsection \<open>The view over time\<close>

text \<open>
  The outcome of the request of \<open>cohort.save\<close>: jQuery runs the callbacks of \<open>done\<close>
  with the data of the response, or those of \<open>fail\<close> with the request object, once.
\<close>

datatype response = Success jsval | Failure jsval

definition saveForm_response ::
  "env \<Rightarrow> response \<Rightarrow> view \<times> deferred \<Rightarrow> js_error \<times> (view \<times> deferred) + view \<times> deferred" where
  "saveForm_response e r st =
     (case r of
        Success result \<Rightarrow> saveForm_done e result st
      | Failure result \<Rightarrow> Inr (saveForm_fail e result st))"

definition empty_form :: form where
  "empty_form =
     \<lparr>radio_yes_checked = Undefined, group_association_val = Undefined,
      cohort_name_val = Undefined, assignment_type_val = Undefined, form_fields = 0\<rparr>"


text \<open>
  What can happen to the view: a call of one of its methods, a callback of a save, the
  user changing the values of the form's inputs, and the model changing. When a method
  throws, the view stays as it was at the throw.
\<close>

datatype event =
    Render
  | ShowNotification notification_options nat
  | RemoveNotification
  | ShowMessage jsval jsval jsval
  | SaveForm
  | SaveDone jsval
  | SaveFail jsval
  | FormInput form
  | ModelChange cohort_model

fun step :: "env \<Rightarrow> view \<Rightarrow> event \<Rightarrow> view" where
  "step e v Render =
     (case render e v of
        Inl err \<Rightarrow> v
      | Inr v' \<Rightarrow> v')"
| "step e v (ShowNotification options beforeElement) = showNotification options beforeElement v"
| "step e v RemoveNotification = removeNotification v"
| "step e v (ShowMessage message type details) = showMessage message type details v"
| "step e v SaveForm =
     (case saveForm e v of
        Inl err \<Rightarrow> removeNotification v
      | Inr (v', d) \<Rightarrow> v')"
| "step e v (SaveDone result) =
     (case saveForm_done e result (v, []) of
        Inl (err, (v', d)) \<Rightarrow> v'
      | Inr (v', d) \<Rightarrow> v')"
| "step e v (SaveFail result) = fst (saveForm_fail e result (v, []))"
| "step e v (FormInput f) = v\<lparr>el_form := f\<lparr>form_fields := form_fields (el_form v)\<rparr>\<rparr>"
| "step e v (ModelChange m) = v\<lparr>model := m\<rparr>"




section \<open>A concrete host and view\<close>

text \<open>
  A host to evaluate the view in: the identity translation, the white space of
  ECMAScript 5, decimal \<open>parseInt\<close>, and a \<open>JSON.parse\<close> that knows three bodies.
\<close>

definition es5_white_space :: "16 word \<Rightarrow> bool" where
  "es5_white_space c =
     (c \<in> set [9, 10, 11, 12, 13, 32, 160, 5760, 8232, 8233, 8239, 8287, 12288, 65279]
      \<or> (8192 \<le> c \<and> c \<le> 8202))"

fun decimal_value :: "nat \<Rightarrow> jsstring \<Rightarrow> nat" where
  "decimal_value acc [] = acc"
| "decimal_value acc (c # cs) =
     (if 48 \<le> c \<and> c \<le> 57 then decimal_value (10 * acc + (unat c - 48)) cs else acc)"

definition example_parseInt :: "jsval \<Rightarrow> jsnum" where
  "example_parseInt x =
     (case x of
        Str (c # cs) \<Rightarrow> (if 48 \<le> c \<and> c \<le> 57 then Fin (real (decimal_value 0 (c # cs))) else NaN)
      | other \<Rightarrow> NaN)"

definition example_JSON_parse :: "jsval \<Rightarrow> jsval option" where
  \<open>example_JSON_parse x =
     (if x = Str (js ''{"error": "Name taken"}'')
      then Some (Obj [(js ''error'', Str (js ''Name taken''))])
      else if x = Str (js ''{"id": 7}'')
      then Some (Obj [(js ''id'', Number (Fin 7))])
      else if x = Str (js ''null'')
      then Some Null
      else None)\<close>

definition example_env :: env where
  "example_env =
     \<lparr>gettext = (\<lambda>s. s), isWhiteSpace = es5_white_space, parseInt = example_parseInt,
      JSON_parse = example_JSON_parse, ToNumber = (\<lambda>s. example_parseInt (Str s)),
      object_equals = (\<lambda>x y. False)\<rparr>"

definition example_form :: form where
  "example_form =
     \<lparr>radio_yes_checked = Boolean True, group_association_val = Str (js ''2:5''),
      cohort_name_val = Str (js '' Team A  ''), assignment_type_val = Str (js ''manual''),
      form_fields = 1\<rparr>"

definition example_cohorts :: "cohort list" where
  "example_cohorts =
     [\<lparr>c_name = Str (js ''Team B''), c_assignment_type = Str (js ''manual'')\<rparr>,
      \<lparr>c_name = Str (js ''Default''), c_assignment_type = Str (js ''random'')\<rparr>]"

definition example_contentGroups :: "content_group list" where
  "example_contentGroups =
     [\<lparr>cg_id = Number (Fin 1), cg_get_id = Number (Fin 1),
       cg_get_user_partition_id = Number (Fin 5)\<rparr>,
      \<lparr>cg_id = Number (Fin 2), cg_get_id = Number (Fin 2),
       cg_get_user_partition_id = Number (Fin 5)\<rparr>,
      \<lparr>cg_id = Number (Fin 2), cg_get_id = Number (Fin 2),
       cg_get_user_partition_id = Number (Fin 6)\<rparr>]"

text \<open>A rendered form for a new cohort (the model has no id yet).\<close>

definition example_view :: view where
  "example_view =
     \<lparr>model = \<lparr>model_id = Undefined, model_name = Str [],
               model_collection = Some example_cohorts\<rparr>,
      template = (\<lambda>args. example_form),
      contentGroups = example_contentGroups,
      context' = Obj [(js ''studioGroupConfigurationsUrl'', Str (js ''/group_configurations''))],
      notification = None,
      el_form = example_form,
      el_html = None,
      el_notifications = [],
      allocated = 0,
      save_requests = []\<rparr>"

text \<open>The same form with a blank name and no content group chosen.\<close>

definition example_invalid_view :: view where
  "example_invalid_view =
     example_view\<lparr>el_form := example_form\<lparr>cohort_name_val := Str (js ''  ''),
                                            group_association_val := Str (js ''None'')\<rparr>\<rparr>"

text \<open>The view after \<open>saveForm\<close> has sent the request for the form above.\<close>

definition example_saving_view :: view where
  "example_saving_view =
     example_view\<lparr>save_requests :=
       [\<lparr>rq_attrs = \<lparr>fd_name = Str (js ''Team A''), fd_group_id = Number (Fin 2),
                     fd_user_partition_id = Number (Fin 5),
                     fd_assignment_type = Str (js ''manual'')\<rparr>,
         rq_patch = False, rq_wait = True\<rparr>]\<rparr>"



text \<open>
  The form with the radio button checked and a select without a value: \<open>val()\<close> is
  \<open>null\<close> when no option is selected.
\<close>

definition example_no_selection_view :: view where
  "example_no_selection_view =
     example_view\<lparr>el_form := example_form\<lparr>group_association_val := Null\<rparr>\<rparr>"



section \<open>Lemmas on strings and lists\<close>

lemma split_not_Nil: "split sep s \<noteq> []"
  by (induction s) (auto split: list.splits)

lemma hd_split: "hd (split sep s) = takeWhile (\<lambda>c. c \<noteq> sep) s"
  by (induction s) (auto split: list.splits simp: split_not_Nil)

lemma index_split_0: "index (split sep s) 0 = Str (takeWhile (\<lambda>c. c \<noteq> sep) s)"
  using split_not_Nil [of sep s] hd_split [of sep s]
  by (cases "split sep s") (auto simp: index_def)

lemma index_split_1:
  "index (split sep s) (Suc 0) =
     (if sep \<in> set s
      then Str (takeWhile (\<lambda>c. c \<noteq> sep) (tl (dropWhile (\<lambda>c. c \<noteq> sep) s)))
      else Undefined)"
proof (induction s)
  case Nil
  show ?case by (simp add: index_def)
next
  case (Cons c cs)
  show ?case
  proof (cases "c = sep")
    case True
    then show ?thesis
      using index_split_0 [of sep cs] split_not_Nil [of sep cs]
      by (cases "split sep cs") (auto simp: index_def)
  next
    case False
    then have "index (split sep (c # cs)) (Suc 0) = index (split sep cs) (Suc 0)"
      using split_not_Nil [of sep cs] by (cases "split sep cs") (auto simp: index_def)
    then show ?thesis using Cons.IH False by simp
  qed
qed

lemma find_content_group_find:
  "find_content_group gid pid gs =
     List.find (\<lambda>g. strict_eq (cg_get_id g) gid \<and> strict_eq (cg_get_user_partition_id g) pid) gs"
  by (induction gs) simp_all

lemma strict_eq_Str: "strict_eq x (Str s) = (x = Str s)"
  by (cases x) auto

lemma strict_eq_Null: "strict_eq x Null = (x = Null)"
  by (cases x) auto

lemma trim_decompose:
  "\<exists>a b. s = a @ trim ws s @ b \<and> (\<forall>c\<in>set a. ws c) \<and> (\<forall>c\<in>set b. ws c)"
proof -
  let ?a = "takeWhile ws s"
  let ?r = "dropWhile ws s"
  let ?b = "rev (takeWhile ws (rev ?r))"
  have "rev (takeWhile ws (rev ?r) @ dropWhile ws (rev ?r)) = ?r"
    by (simp only: takeWhile_dropWhile_id rev_rev_ident)
  then have "rev (dropWhile ws (rev ?r)) @ ?b = ?r"
    by (simp only: rev_append)
  then have "trim ws s @ ?b = ?r"
    by (simp only: trim_def)
  then have "?a @ trim ws s @ ?b = ?a @ ?r"
    by (simp only:)
  then have "s = ?a @ trim ws s @ ?b"
    by (simp only: takeWhile_dropWhile_id)
  moreover have "\<forall>c\<in>set ?a. ws c" by (auto dest: set_takeWhileD)
  moreover have "\<forall>c\<in>set ?b. ws c" by (auto dest: set_takeWhileD)
  ultimately show ?thesis by blast
qed

lemma trim_hd: "trim ws s \<noteq> [] \<Longrightarrow> \<not> ws (hd (trim ws s))"
proof -
  assume ne: "trim ws s \<noteq> []"
  let ?r = "dropWhile ws s"
  have r: "?r \<noteq> []"
  proof
    assume a: "?r = []"
    have "trim ws s = []" by (simp only: trim_def a rev.simps dropWhile.simps)
    then show False using ne by simp
  qed
  have nw: "\<not> ws (hd ?r)" using r by (simp add: hd_dropWhile)
  have "rev (dropWhile ws (rev ?r)) \<noteq> []" using ne by (simp add: trim_def)
  obtain x xs where x: "?r = x # xs" using r by (cases ?r) auto
  have "\<not> ws x" using nw x by simp
  then have "dropWhile ws (rev ?r) = dropWhile ws (rev xs) @ [x]"
    using x by (simp add: dropWhile_append3)
  then have "hd (rev (dropWhile ws (rev ?r))) = x" by simp
  then show ?thesis using \<open>\<not> ws x\<close> by (simp add: trim_def)
qed

lemma trim_last: "trim ws s \<noteq> [] \<Longrightarrow> \<not> ws (last (trim ws s))"
proof -
  assume ne: "trim ws s \<noteq> []"
  let ?d = "dropWhile ws (rev (dropWhile ws s))"
  have d: "?d \<noteq> []" using ne by (simp add: trim_def)
  then have "\<not> ws (hd ?d)" by (simp add: hd_dropWhile)
  moreover have "last (rev ?d) = hd ?d" using d by (simp add: last_rev)
  ultimately show ?thesis by (simp add: trim_def)
qed

lemma filter_eq_single_iff:
  "(filter P xs = [c]) =
     (\<exists>i<length xs. xs ! i = c \<and> P c \<and> (\<forall>j<length xs. P (xs ! j) \<longrightarrow> j = i))"
proof (induction xs)
  case Nil
  show ?case by simp
next
  case (Cons x xs)
  show ?case
  proof (cases "P x")
    case False
    show ?thesis
    proof
      assume "filter P (x # xs) = [c]"
      then have "filter P xs = [c]" using False by simp
      then obtain i where i: "i < length xs" "xs ! i = c" "P c"
        and uniq: "\<forall>j<length xs. P (xs ! j) \<longrightarrow> j = i"
        using Cons.IH by blast
      have u: "\<forall>j<length (x # xs). P ((x # xs) ! j) \<longrightarrow> j = Suc i"
      proof (intro allI impI)
        fix j assume j: "j < length (x # xs)" "P ((x # xs) ! j)"
        show "j = Suc i"
        proof (cases j)
          case 0
          then show ?thesis using j(2) False by simp
        next
          case (Suc k)
          then have "k < length xs" "P (xs ! k)" using j by simp_all
          then have "k = i" using uniq by blast
          then show ?thesis using Suc by simp
        qed
      qed
      show "\<exists>i<length (x # xs). (x # xs) ! i = c \<and> P c
          \<and> (\<forall>j<length (x # xs). P ((x # xs) ! j) \<longrightarrow> j = i)"
      proof (intro exI [of _ "Suc i"] conjI)
        show "Suc i < length (x # xs)" using i(1) by simp
        show "(x # xs) ! Suc i = c" using i(2) by simp
        show "P c" by fact
        show "\<forall>j<length (x # xs). P ((x # xs) ! j) \<longrightarrow> j = Suc i" by fact
      qed
    next
      assume "\<exists>i<length (x # xs). (x # xs) ! i = c \<and> P c
          \<and> (\<forall>j<length (x # xs). P ((x # xs) ! j) \<longrightarrow> j = i)"
      then obtain i where i: "i < length (x # xs)" "(x # xs) ! i = c" "P c"
        and uniq: "\<forall>j<length (x # xs). P ((x # xs) ! j) \<longrightarrow> j = i" by blast
      obtain k where k: "i = Suc k"
      proof (cases i)
        case 0
        then have "x = c" using i(2) by simp
        then show ?thesis using False i(3) by simp
      next
        case (Suc k)
        then show ?thesis using that by simp
      qed
      have u: "\<forall>j<length xs. P (xs ! j) \<longrightarrow> j = k"
      proof (intro allI impI)
        fix j assume j: "j < length xs" "P (xs ! j)"
        have "Suc j < length (x # xs)" "P ((x # xs) ! Suc j)" using j by simp_all
        then have "Suc j = i" using uniq by blast
        then show "j = k" using k by simp
      qed
      have "\<exists>i<length xs. xs ! i = c \<and> P c \<and> (\<forall>j<length xs. P (xs ! j) \<longrightarrow> j = i)"
      proof (intro exI [of _ k] conjI)
        show "k < length xs" using i(1) k by simp
        show "xs ! k = c" using i(2) k by simp
        show "P c" by fact
        show "\<forall>j<length xs. P (xs ! j) \<longrightarrow> j = k" by fact
      qed
      then have "filter P xs = [c]" using Cons.IH by blast
      then show "filter P (x # xs) = [c]" using False by simp
    qed
  next
    case True
    show ?thesis
    proof
      assume "filter P (x # xs) = [c]"
      then have xc: "x = c" and none: "filter P xs = []" using True by simp_all
      have u: "\<forall>j<length (x # xs). P ((x # xs) ! j) \<longrightarrow> j = 0"
      proof (intro allI impI)
        fix j assume j: "j < length (x # xs)" "P ((x # xs) ! j)"
        show "j = 0"
        proof (cases j)
          case 0 then show ?thesis .
        next
          case (Suc k)
          then have "xs ! k \<in> set xs" "P (xs ! k)" using j by simp_all
          then have "xs ! k \<in> set (filter P xs)" by simp
          then show ?thesis using none by simp
        qed
      qed
      show "\<exists>i<length (x # xs). (x # xs) ! i = c \<and> P c
          \<and> (\<forall>j<length (x # xs). P ((x # xs) ! j) \<longrightarrow> j = i)"
      proof (intro exI [of _ 0] conjI)
        show "0 < length (x # xs)" by simp
        show "(x # xs) ! 0 = c" using xc by simp
        show "P c" using True xc by simp
        show "\<forall>j<length (x # xs). P ((x # xs) ! j) \<longrightarrow> j = 0" by fact
      qed
    next
      assume "\<exists>i<length (x # xs). (x # xs) ! i = c \<and> P c
          \<and> (\<forall>j<length (x # xs). P ((x # xs) ! j) \<longrightarrow> j = i)"
      then obtain i where i: "i < length (x # xs)" "(x # xs) ! i = c" "P c"
        and uniq: "\<forall>j<length (x # xs). P ((x # xs) ! j) \<longrightarrow> j = i" by blast
      have "0 < length (x # xs)" "P ((x # xs) ! 0)" using True by simp_all
      then have i0: "0 = i" using uniq by blast
      then have xc: "x = c" using i(2) by auto
      have "filter P xs = []"
      proof (rule ccontr)
        assume "filter P xs \<noteq> []"
        then obtain y where y: "y \<in> set xs" "P y"
          by (auto simp: filter_empty_conv)
        then obtain k where k: "k < length xs" "xs ! k = y" by (auto simp: in_set_conv_nth)
        have "Suc k < length (x # xs)" "P ((x # xs) ! Suc k)" using k y by simp_all
        then have "Suc k = i" using uniq by blast
        then show False using i0 by simp
      qed
      then show "filter P (x # xs) = [c]" using True xc by simp
    qed
  qed
qed


subsection \<open>The view's reads do not depend on the notification\<close>

lemma el_form_removeNotification: "el_form (removeNotification v) = el_form v"
  by (simp add: removeNotification_def split: option.splits)

lemma model_removeNotification: "model (removeNotification v) = model v"
  by (simp add: removeNotification_def split: option.splits)

lemma contentGroups_removeNotification: "contentGroups (removeNotification v) = contentGroups v"
  by (simp add: removeNotification_def split: option.splits)

lemma save_requests_removeNotification: "save_requests (removeNotification v) = save_requests v"
  by (simp add: removeNotification_def split: option.splits)

lemma hasAssociatedContentGroup_removeNotification:
  "hasAssociatedContentGroup (removeNotification v) = hasAssociatedContentGroup v"
  by (simp add: hasAssociatedContentGroup_def el_form_removeNotification)

lemma validate_removeNotification: "validate e (removeNotification v) fd = validate e v fd"
  unfolding validate_def hasAssociatedContentGroup_removeNotification el_form_removeNotification
  by (rule refl)

lemma getSelectedContentGroup_removeNotification:
  "getSelectedContentGroup e (removeNotification v) = getSelectedContentGroup e v"
  unfolding getSelectedContentGroup_def hasAssociatedContentGroup_removeNotification
    el_form_removeNotification contentGroups_removeNotification
  by (rule refl)

lemma getUpdatedCohortName_removeNotification:
  "getUpdatedCohortName e (removeNotification v) = getUpdatedCohortName e v"
  unfolding getUpdatedCohortName_def el_form_removeNotification model_removeNotification
  by (rule refl)

lemma saveForm_fieldData_removeNotification:
  "saveForm_fieldData e (removeNotification v) = saveForm_fieldData e v"
  unfolding saveForm_fieldData_def getSelectedContentGroup_removeNotification
    getUpdatedCohortName_removeNotification getAssignmentType_def el_form_removeNotification
  by (rule refl)

section \<open>The claims\<close>

text \<open>
  C6. The defaults of AccountSettingsModel are exactly the twelve fields username, name,
  email, password, language, country, date_joined, gender, goals, level_of_education,
  mailing_address and year_of_birth; username, name, email, password, date_joined, goals
  and mailing_address default to the empty string and the others to null; username is the
  id attribute.
\<close>

theorem AccountSettingsModel_defaults_fields:
  "map fst AccountSettingsModel_defaults =
     map js [''username'', ''name'', ''email'', ''password'', ''language'', ''country'',
             ''date_joined'', ''gender'', ''goals'', ''level_of_education'',
             ''mailing_address'', ''year_of_birth'']
   \<and> distinct (map fst AccountSettingsModel_defaults)
   \<and> map fst (filter (\<lambda>p. snd p = Str []) AccountSettingsModel_defaults) =
     map js [''username'', ''name'', ''email'', ''password'', ''date_joined'', ''goals'',
             ''mailing_address'']
   \<and> map fst (filter (\<lambda>p. snd p = Null) AccountSettingsModel_defaults) =
     map js [''language'', ''country'', ''gender'', ''level_of_education'', ''year_of_birth'']
   \<and> AccountSettingsModel_idAttribute = js ''username''
   \<and> map_of AccountSettingsModel_defaults AccountSettingsModel_idAttribute = Some (Str [])"
  by (simp add: AccountSettingsModel_defaults_def AccountSettingsModel_idAttribute_def js_def)

text \<open>
  C1. For every field data, \<open>validate\<close> returns a non-empty list of messages if and only
  if the name is falsy, or the radio button of the associated content group is checked
  while \<open>group_id\<close> is null; these two checks are all it does: the list holds the message
  of each check that fails, in this order.
\<close>

theorem validate_nonempty_iff:
  "(validate e v fieldData \<noteq> []) =
     (\<not> truthy (fd_name fieldData)
      \<or> (truthy (hasAssociatedContentGroup v) \<and> fd_group_id fieldData = Null))
   \<and> validate e v fieldData =
       (if truthy (fd_name fieldData) then []
        else [gettext e (js ''You must specify a name for the cohort'')])
       @ (if truthy (hasAssociatedContentGroup v) \<and> fd_group_id fieldData = Null
          then [if group_association_val (el_form v) = Str (js ''None'')
                then gettext e (js ''You did not select a content group'')
                else gettext e (js ''The selected content group does not exist'')]
          else [])"
  by (simp add: validate_def Let_def strict_eq_Null strict_eq_Str)

theorem validate_nonempty_iff_witness:
  "validate example_env example_invalid_view
     \<lparr>fd_name = Str [], fd_group_id = Null, fd_user_partition_id = Null,
      fd_assignment_type = Str (js ''manual'')\<rparr>
   = [js ''You must specify a name for the cohort'', js ''You did not select a content group'']
   \<and> validate example_env example_view
     \<lparr>fd_name = Str (js ''Team A''), fd_group_id = Number (Fin 2),
      fd_user_partition_id = Number (Fin 5), fd_assignment_type = Str (js ''manual'')\<rparr>
   = []"
  using validate_nonempty_iff [of example_env example_invalid_view
      "\<lparr>fd_name = Str [], fd_group_id = Null, fd_user_partition_id = Null,
        fd_assignment_type = Str (js ''manual'')\<rparr>"]
    validate_nonempty_iff [of example_env example_view
      "\<lparr>fd_name = Str (js ''Team A''), fd_group_id = Number (Fin 2),
        fd_user_partition_id = Number (Fin 5), fd_assignment_type = Str (js ''manual'')\<rparr>"]
  by (simp add: example_env_def example_invalid_view_def example_view_def example_form_def
      hasAssociatedContentGroup_def js_def)

text \<open>
  C5, as the code has it. For every list of content groups, \<open>getSelectedContentGroup\<close>
  returns null when the radio button of the associated content group is not checked
  (whatever the select's value) or the select's value is 'None'. Otherwise, for every
  string value of the select, it returns the first content group of the list whose id is
  the number parsed from the text before the first ':' and whose user_partition_id is the
  number parsed from the piece after it, and null when the list has no such group.
\<close>

theorem getSelectedContentGroup_first_match:
  "(\<not> truthy (hasAssociatedContentGroup v) \<or> group_association_val (el_form v) = Str (js ''None'')
      \<longrightarrow> getSelectedContentGroup e v = Inr None)
   \<and> (truthy (hasAssociatedContentGroup v) \<and> group_association_val (el_form v) = Str s
        \<and> s \<noteq> js ''None'' \<longrightarrow>
       (let groupId = Number (parseInt e (Str (takeWhile (\<lambda>c. c \<noteq> 58) s)));
            userPartitionId = Number (parseInt e
              (if 58 \<in> set s
               then Str (takeWhile (\<lambda>c. c \<noteq> 58) (tl (dropWhile (\<lambda>c. c \<noteq> 58) s)))
               else Undefined));
            matches = (\<lambda>g. strict_eq (cg_get_id g) groupId
                           \<and> strict_eq (cg_get_user_partition_id g) userPartitionId);
            groups = contentGroups v
        in (\<exists>r. getSelectedContentGroup e v = Inr r
              \<and> (case r of
                    None \<Rightarrow> \<forall>g\<in>set groups. \<not> matches g
                  | Some g \<Rightarrow> \<exists>i<length groups. groups ! i = g \<and> matches g
                                \<and> (\<forall>j<i. \<not> matches (groups ! j))))))"
proof (intro conjI impI)
  assume "\<not> truthy (hasAssociatedContentGroup v) \<or> group_association_val (el_form v) = Str (js ''None'')"
  then show "getSelectedContentGroup e v = Inr None"
    by (auto simp: getSelectedContentGroup_def)
next
  assume a: "truthy (hasAssociatedContentGroup v) \<and> group_association_val (el_form v) = Str s
        \<and> s \<noteq> js ''None''"
  define groupId where "groupId = Number (parseInt e (Str (takeWhile (\<lambda>c. c \<noteq> 58) s)))"
  define userPartitionId where "userPartitionId = Number (parseInt e
              (if 58 \<in> set s
               then Str (takeWhile (\<lambda>c. c \<noteq> 58) (tl (dropWhile (\<lambda>c. c \<noteq> 58) s)))
               else Undefined))"
  define matches where "matches = (\<lambda>g::content_group. strict_eq (cg_get_id g) groupId
                           \<and> strict_eq (cg_get_user_partition_id g) userPartitionId)"
  have r: "getSelectedContentGroup e v = Inr (List.find matches (contentGroups v))"
    using a
    by (simp add: getSelectedContentGroup_def Let_def index_split_0 index_split_1 [simplified]
        find_content_group_find matches_def groupId_def userPartitionId_def)
  have "case List.find matches (contentGroups v) of
          None \<Rightarrow> \<forall>g\<in>set (contentGroups v). \<not> matches g
        | Some g \<Rightarrow> \<exists>i<length (contentGroups v). contentGroups v ! i = g \<and> matches g
                      \<and> (\<forall>j<i. \<not> matches (contentGroups v ! j))"
  proof (cases "List.find matches (contentGroups v)")
    case None
    have "\<forall>g\<in>set (contentGroups v). \<not> matches g"
      using None by (simp add: find_None_iff)
    then show ?thesis unfolding None by simp
  next
    case (Some g)
    have "\<exists>i<length (contentGroups v). contentGroups v ! i = g \<and> matches g
            \<and> (\<forall>j<i. \<not> matches (contentGroups v ! j))"
      using Some by (auto simp: find_Some_iff)
    then show ?thesis unfolding Some by simp
  qed
  then show "let groupId = Number (parseInt e (Str (takeWhile (\<lambda>c. c \<noteq> 58) s)));
            userPartitionId = Number (parseInt e
              (if 58 \<in> set s
               then Str (takeWhile (\<lambda>c. c \<noteq> 58) (tl (dropWhile (\<lambda>c. c \<noteq> 58) s)))
               else Undefined));
            matches = (\<lambda>g. strict_eq (cg_get_id g) groupId
                           \<and> strict_eq (cg_get_user_partition_id g) userPartitionId);
            groups = contentGroups v
        in (\<exists>r. getSelectedContentGroup e v = Inr r
              \<and> (case r of
                    None \<Rightarrow> \<forall>g\<in>set groups. \<not> matches g
                  | Some g \<Rightarrow> \<exists>i<length groups. groups ! i = g \<and> matches g
                                \<and> (\<forall>j<i. \<not> matches (groups ! j))))"
    using r unfolding Let_def matches_def groupId_def userPartitionId_def by blast
qed

theorem getSelectedContentGroup_first_match_witness:
  "truthy (hasAssociatedContentGroup example_view)
   \<and> group_association_val (el_form example_view) = Str (js ''2:5'')
   \<and> js ''2:5'' \<noteq> js ''None''
   \<and> getSelectedContentGroup example_env example_view = Inr (Some (example_contentGroups ! 1))
   \<and> group_association_val (el_form example_invalid_view) = Str (js ''None'')
   \<and> getSelectedContentGroup example_env example_invalid_view = Inr None"
  using getSelectedContentGroup_first_match [of example_view example_env "js ''2:5''"]
    getSelectedContentGroup_first_match [of example_invalid_view example_env "js ''None''"]
  by (simp add: getSelectedContentGroup_def hasAssociatedContentGroup_def example_view_def
      example_invalid_view_def example_form_def example_env_def example_contentGroups_def
      example_parseInt_def index_def num_eq_def js_def Let_def)

text \<open>
  C5, as stated for every select value, fails: with the radio button checked and a select
  that has no value (\<open>val()\<close> is \<open>null\<close> when no option is selected and \<open>undefined\<close>
  when there is no select), \<open>selectValue.split\<close> throws a TypeError and nothing is
  returned.
\<close>

theorem getSelectedContentGroup_no_value_counterexample:
  "truthy (hasAssociatedContentGroup example_no_selection_view)
   \<and> group_association_val (el_form example_no_selection_view) = Null
   \<and> getSelectedContentGroup example_env example_no_selection_view = Inl TypeError
   \<and> getSelectedContentGroup example_env
        (example_view\<lparr>el_form := example_form\<lparr>group_association_val := Undefined\<rparr>\<rparr>)
      = Inl TypeError"
  by (simp add: getSelectedContentGroup_def hasAssociatedContentGroup_def
      example_no_selection_view_def example_view_def example_form_def Let_def)

text \<open>
  C9. When the value of the name input is a non-empty string, \<open>getUpdatedCohortName\<close>
  returns it without its leading and trailing white space, so the name returned starts
  and ends with no white space; when the value is empty or absent, it returns the
  model's name attribute.
\<close>

theorem getUpdatedCohortName_trimmed:
  "(cohort_name_val (el_form v) = Str s \<and> s \<noteq> [] \<longrightarrow>
      (\<exists>t a b. getUpdatedCohortName e v = Inr (Str t)
         \<and> s = a @ t @ b
         \<and> (\<forall>c\<in>set a. isWhiteSpace e c) \<and> (\<forall>c\<in>set b. isWhiteSpace e c)
         \<and> (t \<noteq> [] \<longrightarrow> \<not> isWhiteSpace e (hd t) \<and> \<not> isWhiteSpace e (last t))))
   \<and> (cohort_name_val (el_form v) = Str [] \<or> cohort_name_val (el_form v) = Undefined
        \<or> cohort_name_val (el_form v) = Null
      \<longrightarrow> getUpdatedCohortName e v = Inr (model_name (model v)))"
proof (intro conjI impI)
  assume a: "cohort_name_val (el_form v) = Str s \<and> s \<noteq> []"
  let ?t = "trim (isWhiteSpace e) s"
  have r: "getUpdatedCohortName e v = Inr (Str ?t)"
    using a by (simp add: getUpdatedCohortName_def)
  obtain a b where ab: "s = a @ ?t @ b" "\<forall>c\<in>set a. isWhiteSpace e c" "\<forall>c\<in>set b. isWhiteSpace e c"
    using trim_decompose [of s "isWhiteSpace e"] by blast
  have "?t \<noteq> [] \<longrightarrow> \<not> isWhiteSpace e (hd ?t) \<and> \<not> isWhiteSpace e (last ?t)"
    using trim_hd [of "isWhiteSpace e" s] trim_last [of "isWhiteSpace e" s] by blast
  then show "\<exists>t a b. getUpdatedCohortName e v = Inr (Str t)
         \<and> s = a @ t @ b
         \<and> (\<forall>c\<in>set a. isWhiteSpace e c) \<and> (\<forall>c\<in>set b. isWhiteSpace e c)
         \<and> (t \<noteq> [] \<longrightarrow> \<not> isWhiteSpace e (hd t) \<and> \<not> isWhiteSpace e (last t))"
    using r ab by blast
next
  assume "cohort_name_val (el_form v) = Str [] \<or> cohort_name_val (el_form v) = Undefined
        \<or> cohort_name_val (el_form v) = Null"
  then show "getUpdatedCohortName e v = Inr (model_name (model v))"
    by (auto simp: getUpdatedCohortName_def)
qed

theorem getUpdatedCohortName_trimmed_witness:
  "cohort_name_val (el_form example_view) = Str (js '' Team A  '')
   \<and> js '' Team A  '' \<noteq> []
   \<and> cohort_name_val (el_form (example_view\<lparr>el_form := empty_form\<rparr>)) = Undefined
   \<and> getUpdatedCohortName example_env example_view = Inr (Str (js ''Team A''))
   \<and> getUpdatedCohortName example_env (example_view\<lparr>el_form := empty_form\<rparr>)
     = Inr (model_name (model example_view))"
  using getUpdatedCohortName_trimmed [of example_view "js '' Team A  ''" example_env]
    getUpdatedCohortName_trimmed [of "example_view\<lparr>el_form := empty_form\<rparr>" "[]" example_env]
  by (simp add: getUpdatedCohortName_def example_view_def example_form_def example_env_def
      empty_form_def trim_def es5_white_space_def js_def)

text \<open>
  C10. \<open>isDefault name\<close> is true if and only if the model has a collection in which
  exactly one cohort has the assignment type 'random' and the name of that cohort equals
  (\<open>==\<close>) the given name. So it is false when the model has no collection, and when the
  collection has no or several cohorts of assignment type 'random'. For two strings
  \<open>==\<close> is equality of strings.
\<close>

theorem isDefault_iff:
  "isDefault e v name =
     (\<exists>cohorts i. model_collection (model v) = Some cohorts
        \<and> i < length cohorts
        \<and> c_assignment_type (cohorts ! i) = Str (js ''random'')
        \<and> (\<forall>j<length cohorts. c_assignment_type (cohorts ! j) = Str (js ''random'') \<longrightarrow> j = i)
        \<and> loose_eq e (c_name (cohorts ! i)) name)
   \<and> (model_collection (model v) = None \<longrightarrow> \<not> isDefault e v name)
   \<and> (\<forall>cohorts. model_collection (model v) = Some cohorts
        \<and> length (filter (\<lambda>c. c_assignment_type c = Str (js ''random'')) cohorts) \<noteq> 1
        \<longrightarrow> \<not> isDefault e v name)
   \<and> loose_eq e (Str s) (Str t) = (s = t)"
proof (intro conjI)
  let ?P = "\<lambda>c::cohort. c_assignment_type c = Str (js ''random'')"
  have filt: "\<And>cs. filter (\<lambda>c::cohort. strict_eq (c_assignment_type c) (Str (js ''random''))) cs
        = filter ?P cs"
    by (simp add: strict_eq_Str)
  have len1: "\<And>(xs::cohort list) Q. (length xs = 1 \<and> Q (hd xs)) = (\<exists>c. xs = [c] \<and> Q c)"
  proof -
    fix xs :: "cohort list" and Q
    show "(length xs = 1 \<and> Q (hd xs)) = (\<exists>c. xs = [c] \<and> Q c)"
      by (cases xs) auto
  qed
  show "isDefault e v name =
     (\<exists>cohorts i. model_collection (model v) = Some cohorts
        \<and> i < length cohorts
        \<and> c_assignment_type (cohorts ! i) = Str (js ''random'')
        \<and> (\<forall>j<length cohorts. c_assignment_type (cohorts ! j) = Str (js ''random'') \<longrightarrow> j = i)
        \<and> loose_eq e (c_name (cohorts ! i)) name)"
  proof (cases "model_collection (model v)")
    case None
    then show ?thesis by (simp add: isDefault_def)
  next
    case (Some cs)
    have "isDefault e v name = (\<exists>c. filter ?P cs = [c] \<and> loose_eq e (c_name c) name)"
      using Some len1 [of "filter ?P cs" "\<lambda>c. loose_eq e (c_name c) name"]
      by (simp add: isDefault_def Let_def filt)
    also have "\<dots> = (\<exists>i<length cs. ?P (cs ! i)
        \<and> (\<forall>j<length cs. ?P (cs ! j) \<longrightarrow> j = i) \<and> loose_eq e (c_name (cs ! i)) name)"
      unfolding filter_eq_single_iff by blast
    finally show ?thesis using Some by simp
  qed
  show "model_collection (model v) = None \<longrightarrow> \<not> isDefault e v name"
    by (simp add: isDefault_def)
  show "\<forall>cohorts. model_collection (model v) = Some cohorts
        \<and> length (filter (\<lambda>c. c_assignment_type c = Str (js ''random'')) cohorts) \<noteq> 1
        \<longrightarrow> \<not> isDefault e v name"
    by (simp add: isDefault_def Let_def filt)
  show "loose_eq e (Str s) (Str t) = (s = t)"
    by (simp add: loose_eq_def nullish_def)
qed

theorem isDefault_iff_witness:
  "model_collection (model example_view) = Some example_cohorts
   \<and> isDefault example_env example_view (Str (js ''Default''))
   \<and> \<not> isDefault example_env example_view (Str (js ''Team B''))
   \<and> \<not> isDefault example_env
        (example_view\<lparr>model := (model example_view)\<lparr>model_collection := None\<rparr>\<rparr>)
        (Str (js ''Default''))"
  using isDefault_iff [of example_env example_view "Str (js ''Default'')"]
    isDefault_iff [of example_env
      "example_view\<lparr>model := (model example_view)\<lparr>model_collection := None\<rparr>\<rparr>"
      "Str (js ''Default'')"]
  by (simp add: isDefault_def example_view_def example_cohorts_def loose_eq_def nullish_def
      js_def Let_def)

subsection \<open>At most one notification\<close>





















subsection \<open>Saving the form\<close>

lemma saveForm_cases:
  "saveForm e v =
     (case saveForm_fieldData e v of
        Inl err \<Rightarrow> Inl err
      | Inr fieldData \<Rightarrow>
          (if validate e v fieldData \<noteq> []
           then Inr (showErrorMessage
                       (Str (gettext e (if model_id (model v) \<noteq> Undefined
                                        then js ''The cohort cannot be saved''
                                        else js ''The cohort cannot be added'')))
                       (Arr (map Str (validate e v fieldData))) (removeNotification v),
                     [Rejected])
           else Inr ((removeNotification v)\<lparr>save_requests := save_requests v @
                        [\<lparr>rq_attrs = fieldData, rq_patch = (model_id (model v) \<noteq> Undefined),
                          rq_wait = True\<rparr>]\<rparr>,
                     [])))"
  by (simp add: saveForm_def Let_def saveForm_fieldData_removeNotification
      validate_removeNotification save_requests_removeNotification reject_def
      split: sum.splits)

lemma showErrorMessage_notification:
  "\<exists>n. notification (showErrorMessage message details v) = Some n
     \<and> nv_rendered n
     \<and> nv_model n = \<lparr>n_type = Str (js ''error''), n_title = message, n_details = details\<rparr>
     \<and> (0 < form_fields (el_form v) \<longrightarrow>
          Element (nv_id n) \<in> set (el_notifications (showErrorMessage message details v)))"
  by (simp add: showErrorMessage_def showMessage_def showNotification_def before_def Let_def
      js_def)

lemma save_requests_showErrorMessage:
  "save_requests (showErrorMessage message details v) = save_requests v"
  by (simp add: showErrorMessage_def showMessage_def showNotification_def Let_def
      save_requests_removeNotification)

lemma save_requests_render: "render e v = Inr v' \<Longrightarrow> save_requests v' = save_requests v"
  by (cases "get_prop (context' v) (js ''studioGroupConfigurationsUrl'')")
    (auto simp: render_def Let_def)

lemma save_requests_saveForm_done:
  "save_requests (step e w (SaveDone result)) = save_requests w"
proof (cases "get_prop result (js ''id'')")
  case (Inl err)
  then show ?thesis by (simp add: saveForm_done_def)
next
  case (Inr new_id)
  let ?w1 = "w\<lparr>model := (model w)\<lparr>model_id := new_id\<rparr>\<rparr>"
  show ?thesis
  proof (cases "render e ?w1")
    case (Inl err)
    then show ?thesis using Inr by (simp add: saveForm_done_def Let_def)
  next
    case r: (Inr w2)
    then have "save_requests w2 = save_requests ?w1" by (rule save_requests_render)
    then show ?thesis using Inr r by (simp add: saveForm_done_def Let_def)
  qed
qed

text \<open>
  C2. When \<open>validate\<close> returns at least one message for the field data read from the
  form, \<open>saveForm\<close> issues no save request, shows an error notification (of type
  'error', titled "The cohort cannot be saved" for an update and "The cohort cannot be
  added" otherwise, with the messages as details, rendered, and inserted before the form
  fields when the form has them), and returns a rejected promise. A call of \<open>saveForm\<close>
  that issues a save request is one whose list of messages is empty.
\<close>

theorem saveForm_invalid_rejects:
  "(saveForm_fieldData e v = Inr fieldData \<and> validate e v fieldData \<noteq> [] \<longrightarrow>
      (\<exists>v' n. saveForm e v = Inr (v', [Rejected])
         \<and> promise [Rejected] = Settled Rejected
         \<and> save_requests v' = save_requests v
         \<and> notification v' = Some n
         \<and> nv_rendered n
         \<and> nv_model n =
             \<lparr>n_type = Str (js ''error''),
              n_title = Str (gettext e (if model_id (model v) \<noteq> Undefined
                                        then js ''The cohort cannot be saved''
                                        else js ''The cohort cannot be added'')),
              n_details = Arr (map Str (validate e v fieldData))\<rparr>
         \<and> (0 < form_fields (el_form v) \<longrightarrow> Element (nv_id n) \<in> set (el_notifications v'))))
   \<and> (saveForm e v = Inr (w, d) \<and> save_requests w \<noteq> save_requests v \<longrightarrow>
        (\<exists>fd. saveForm_fieldData e v = Inr fd \<and> validate e v fd = []))"
proof (intro conjI impI)
  assume a: "saveForm_fieldData e v = Inr fieldData \<and> validate e v fieldData \<noteq> []"
  define title where "title = Str (gettext e (if model_id (model v) \<noteq> Undefined
                                        then js ''The cohort cannot be saved''
                                        else js ''The cohort cannot be added''))"
  define details where "details = Arr (map Str (validate e v fieldData))"
  define v' where "v' = showErrorMessage title details (removeNotification v)"
  have r: "saveForm e v = Inr (v', [Rejected])"
    using a by (simp add: saveForm_cases v'_def title_def details_def)
  have "\<exists>n. notification v' = Some n \<and> nv_rendered n
      \<and> nv_model n = \<lparr>n_type = Str (js ''error''), n_title = title, n_details = details\<rparr>
      \<and> (0 < form_fields (el_form (removeNotification v)) \<longrightarrow>
            Element (nv_id n) \<in> set (el_notifications v'))"
    unfolding v'_def by (rule showErrorMessage_notification)
  then obtain n where n: "notification v' = Some n" "nv_rendered n"
      "nv_model n = \<lparr>n_type = Str (js ''error''), n_title = title, n_details = details\<rparr>"
      "0 < form_fields (el_form v) \<longrightarrow> Element (nv_id n) \<in> set (el_notifications v')"
    unfolding el_form_removeNotification by (elim exE conjE)
  have rq: "save_requests v' = save_requests v"
    by (simp add: v'_def save_requests_showErrorMessage save_requests_removeNotification)
  have p: "promise [Rejected] = Settled Rejected" by (simp add: promise_def)
  have "saveForm e v = Inr (v', [Rejected])
         \<and> promise [Rejected] = Settled Rejected
         \<and> save_requests v' = save_requests v
         \<and> notification v' = Some n
         \<and> nv_rendered n
         \<and> nv_model n = \<lparr>n_type = Str (js ''error''), n_title = title, n_details = details\<rparr>
         \<and> (0 < form_fields (el_form v) \<longrightarrow> Element (nv_id n) \<in> set (el_notifications v'))"
    using r n rq p by (intro conjI)
  then show "\<exists>v' n. saveForm e v = Inr (v', [Rejected])
         \<and> promise [Rejected] = Settled Rejected
         \<and> save_requests v' = save_requests v
         \<and> notification v' = Some n
         \<and> nv_rendered n
         \<and> nv_model n =
             \<lparr>n_type = Str (js ''error''),
              n_title = Str (gettext e (if model_id (model v) \<noteq> Undefined
                                        then js ''The cohort cannot be saved''
                                        else js ''The cohort cannot be added'')),
              n_details = Arr (map Str (validate e v fieldData))\<rparr>
         \<and> (0 < form_fields (el_form v) \<longrightarrow> Element (nv_id n) \<in> set (el_notifications v'))"
    unfolding title_def details_def by (intro exI)
next
  assume a: "saveForm e v = Inr (w, d) \<and> save_requests w \<noteq> save_requests v"
  show "\<exists>fd. saveForm_fieldData e v = Inr fd \<and> validate e v fd = []"
  proof (cases "saveForm_fieldData e v")
    case (Inl err)
    then show ?thesis using a by (simp add: saveForm_cases)
  next
    case (Inr fd)
    have "validate e v fd = []"
    proof (rule ccontr)
      assume "validate e v fd \<noteq> []"
      then have "w = showErrorMessage
                       (Str (gettext e (if model_id (model v) \<noteq> Undefined
                                        then js ''The cohort cannot be saved''
                                        else js ''The cohort cannot be added'')))
                       (Arr (map Str (validate e v fd))) (removeNotification v)"
        using a Inr by (simp add: saveForm_cases)
      then have "save_requests w = save_requests v"
        by (simp add: save_requests_showErrorMessage save_requests_removeNotification)
      then show False using a by simp
    qed
    then show ?thesis using Inr by simp
  qed
qed

theorem saveForm_invalid_rejects_witness:
  "saveForm_fieldData example_env example_invalid_view =
     Inr \<lparr>fd_name = Str [], fd_group_id = Null, fd_user_partition_id = Null,
          fd_assignment_type = Str (js ''manual'')\<rparr>
   \<and> validate example_env example_invalid_view
       \<lparr>fd_name = Str [], fd_group_id = Null, fd_user_partition_id = Null,
        fd_assignment_type = Str (js ''manual'')\<rparr> \<noteq> []
   \<and> (\<exists>v'. saveForm example_env example_invalid_view = Inr (v', [Rejected])
          \<and> save_requests v' = []
          \<and> el_notifications v' = [Element 0])"
  using saveForm_invalid_rejects [of example_env example_invalid_view
      "\<lparr>fd_name = Str [], fd_group_id = Null, fd_user_partition_id = Null,
        fd_assignment_type = Str (js ''manual'')\<rparr>" example_saving_view "[]"]
  by (simp add: saveForm_cases saveForm_fieldData_def getSelectedContentGroup_def
      getUpdatedCohortName_def getAssignmentType_def hasAssociatedContentGroup_def
      validate_def showErrorMessage_def showMessage_def showNotification_def before_def
      removeNotification_def example_view_def example_invalid_view_def example_form_def
      example_env_def trim_def es5_white_space_def js_def Let_def)

text \<open>
  C3. A call of \<open>saveForm\<close> makes at most one save request. The request it makes has the
  option \<open>patch\<close> set (a partial update) if and only if the model's id is defined, and
  unset (a create, the model having no id) otherwise; it carries the field data read from
  the form. The callbacks of the request make no further request.
\<close>

theorem saveForm_patch_iff_id:
  "(saveForm e v = Inr (v', d) \<longrightarrow>
      (save_requests v' = save_requests v
       \<or> (\<exists>fd. saveForm_fieldData e v = Inr fd
             \<and> save_requests v' = save_requests v @
                 [\<lparr>rq_attrs = fd, rq_patch = (model_id (model v) \<noteq> Undefined),
                   rq_wait = True\<rparr>])))
   \<and> length (save_requests (step e v SaveForm)) \<le> Suc (length (save_requests v))
   \<and> take (length (save_requests v)) (save_requests (step e v SaveForm)) = save_requests v
   \<and> (\<forall>rq\<in>set (drop (length (save_requests v)) (save_requests (step e v SaveForm))).
         rq_patch rq = (model_id (model v) \<noteq> Undefined))
   \<and> save_requests (step e w (SaveDone result)) = save_requests w
   \<and> save_requests (step e w (SaveFail result)) = save_requests w"
proof (intro conjI impI)
  assume a: "saveForm e v = Inr (v', d)"
  then obtain fd where fd: "saveForm_fieldData e v = Inr fd"
    by (auto simp: saveForm_cases split: sum.splits)
  show "save_requests v' = save_requests v
       \<or> (\<exists>fd. saveForm_fieldData e v = Inr fd
             \<and> save_requests v' = save_requests v @
                 [\<lparr>rq_attrs = fd, rq_patch = (model_id (model v) \<noteq> Undefined),
                   rq_wait = True\<rparr>])"
  proof (cases "validate e v fd = []")
    case True
    then have "save_requests v' = save_requests v @
        [\<lparr>rq_attrs = fd, rq_patch = (model_id (model v) \<noteq> Undefined), rq_wait = True\<rparr>]"
      using a fd by (auto simp: saveForm_cases)
    then show ?thesis using fd by blast
  next
    case False
    then have "save_requests v' = save_requests v"
      using a fd
      by (auto simp: saveForm_cases save_requests_showErrorMessage
          save_requests_removeNotification)
    then show ?thesis by blast
  qed
next
  have c: "save_requests (step e v SaveForm) = save_requests v
      \<or> (\<exists>fd. save_requests (step e v SaveForm) = save_requests v @
            [\<lparr>rq_attrs = fd, rq_patch = (model_id (model v) \<noteq> Undefined), rq_wait = True\<rparr>])"
  proof (cases "saveForm_fieldData e v")
    case (Inl err)
    then show ?thesis by (simp add: saveForm_cases save_requests_removeNotification)
  next
    case (Inr fd)
    then show ?thesis
      by (cases "validate e v fd = []")
        (simp_all add: saveForm_cases save_requests_showErrorMessage
          save_requests_removeNotification)
  qed
  show "length (save_requests (step e v SaveForm)) \<le> Suc (length (save_requests v))"
    using c by auto
  show "take (length (save_requests v)) (save_requests (step e v SaveForm)) = save_requests v"
    using c by auto
  show "\<forall>rq\<in>set (drop (length (save_requests v)) (save_requests (step e v SaveForm))).
         rq_patch rq = (model_id (model v) \<noteq> Undefined)"
    using c by auto
next
  show "save_requests (step e w (SaveDone result)) = save_requests w"
    by (rule save_requests_saveForm_done)
next
  show "save_requests (step e w (SaveFail result)) = save_requests w"
    by (simp add: saveForm_fail_def Let_def save_requests_showErrorMessage)
qed

theorem saveForm_patch_iff_id_witness:
  "model_id (model example_view) = Undefined
   \<and> saveForm example_env example_view = Inr (example_saving_view, [])
   \<and> save_requests example_saving_view =
       [\<lparr>rq_attrs = \<lparr>fd_name = Str (js ''Team A''), fd_group_id = Number (Fin 2),
                     fd_user_partition_id = Number (Fin 5),
                     fd_assignment_type = Str (js ''manual'')\<rparr>,
         rq_patch = False, rq_wait = True\<rparr>]
   \<and> map rq_patch (save_requests (step example_env
        (example_view\<lparr>model := (model example_view)\<lparr>model_id := Number (Fin 7)\<rparr>\<rparr>) SaveForm))
      = [True]"
  using saveForm_patch_iff_id [of example_env example_view example_saving_view "[]"
      example_saving_view Undefined]
    saveForm_patch_iff_id [of example_env
      "example_view\<lparr>model := (model example_view)\<lparr>model_id := Number (Fin 7)\<rparr>\<rparr>"
      example_saving_view "[]" example_saving_view Undefined]
  by (simp add: example_saving_view_def saveForm_cases saveForm_fieldData_def getSelectedContentGroup_def
      getUpdatedCohortName_def getAssignmentType_def hasAssociatedContentGroup_def
      validate_def removeNotification_def example_view_def example_form_def
      example_env_def example_contentGroups_def example_parseInt_def index_def num_eq_def
      trim_def es5_white_space_def js_def Let_def)






text \<open>
  C7. For every call of \<open>saveForm\<close> the promise returned should be settled exactly once,
  resolved when the single save succeeds. The code does not do so when the save succeeds
  with no response data: \<open>saveForm\<close> sends the one request for the example form and
  returns a pending promise; the save succeeds and \<open>done\<close> runs with \<open>undefined\<close> (a
  response without content) or \<open>null\<close>; the callback throws a TypeError on
  \<open>result.id\<close> before it reaches \<open>resolve\<close>, the view and the deferred are as before,
  and the promise is still pending. When the response is an object the same callback
  sets the id, renders and resolves; the callback of \<open>fail\<close> reads the response inside
  \<open>try\<close> and always reaches \<open>reject\<close>.
\<close>

theorem saveForm_done_no_data_throws:
  "saveForm example_env example_view = Inr (example_saving_view, [])
   \<and> length (save_requests example_saving_view) = 1
   \<and> promise [] = Pending
   \<and> saveForm_response example_env (Success Undefined) (example_saving_view, [])
       = Inl (TypeError, (example_saving_view, []))
   \<and> saveForm_response example_env (Success Null) (example_saving_view, [])
       = Inl (TypeError, (example_saving_view, []))
   \<and> promise (snd (projr
        (saveForm_response example_env (Success (Obj [(js ''id'', Number (Fin 7))]))
           (example_saving_view, []))))
       = Settled Resolved"
  by (simp add: saveForm_cases saveForm_fieldData_def getSelectedContentGroup_def
      getUpdatedCohortName_def getAssignmentType_def hasAssociatedContentGroup_def
      validate_def removeNotification_def saveForm_response_def saveForm_done_def
      render_def resolve_def promise_def
      example_saving_view_def example_view_def example_form_def
      example_env_def example_contentGroups_def example_parseInt_def index_def num_eq_def
      trim_def es5_white_space_def js_def Let_def)

end
